theory Spec2Isabelle
  imports Complex_Main "HOL-Library.AList"
begin

section \<open>Values of the language\<close>

text \<open>
  The module of \<^verbatim>\<open>src/v2/connection.ts\<close> receives JSON over a socket and over HTTP
  and reads properties of the parsed values. A value is one of the language's: a number
  is a real (the comparison with zero is the only arithmetic the module does on it).
  An object is its list of own properties in insertion order, with distinct keys, as
  \<^verbatim>\<open>JSON.parse\<close> builds it.
\<close>

datatype jsval =
    JUndefined
  | JNull
  | JBool bool
  | JNum real
  | JStr string
  | JArr "jsval list"
  | JObj "(string \<times> jsval) list"

text \<open>What a \<^verbatim>\<open>throw\<close> carries: the parser's error, a property read of
  \<^verbatim>\<open>undefined\<close> or \<^verbatim>\<open>null\<close> (or a call of something that is no function), and
  the HTTP client's rejection.\<close>

datatype exn = SyntaxError | TypeError | AxiosError

type_synonym 'a result = "exn + 'a"

definition bind_r :: "'a result \<Rightarrow> ('a \<Rightarrow> 'b result) \<Rightarrow> 'b result" where
  "bind_r m f = (case m of Inl e \<Rightarrow> Inl e | Inr x \<Rightarrow> f x)"

text \<open>\<^verbatim>\<open>!v\<close> is \<open>\<not> truthy v\<close>.\<close>

fun truthy :: "jsval \<Rightarrow> bool" where
  "truthy JUndefined = False"
| "truthy JNull = False"
| "truthy (JBool b) = b"
| "truthy (JNum n) = (n \<noteq> 0)"
| "truthy (JStr s) = (s \<noteq> [])"
| "truthy (JArr xs) = True"
| "truthy (JObj fs) = True"

text \<open>
  \<^verbatim>\<open>v.k\<close>: a read on \<^verbatim>\<open>undefined\<close> or \<^verbatim>\<open>null\<close> throws a TypeError; a property
  an object does not have reads as \<^verbatim>\<open>undefined\<close>. The module reads fixed names only,
  none of them an index or a method of a prototype; of the properties that arrays and
  strings have by themselves it reads \<^verbatim>\<open>length\<close>.
\<close>

fun get_prop :: "jsval \<Rightarrow> string \<Rightarrow> jsval result" where
  "get_prop JUndefined k = Inl TypeError"
| "get_prop JNull k = Inl TypeError"
| "get_prop (JObj fs) k = Inr (case map_of fs k of None \<Rightarrow> JUndefined | Some v \<Rightarrow> v)"
| "get_prop (JArr xs) k = Inr (if k = ''length'' then JNum (real (length xs)) else JUndefined)"
| "get_prop (JStr s) k = Inr (if k = ''length'' then JNum (real (length s)) else JUndefined)"
| "get_prop (JBool b) k = Inr JUndefined"
| "get_prop (JNum n) k = Inr JUndefined"

text \<open>\<^verbatim>\<open>v.k1.k2...\<close>, read from left to right.\<close>

fun get_path :: "jsval \<Rightarrow> string list \<Rightarrow> jsval result" where
  "get_path v [] = Inr v"
| "get_path v (k # ks) = bind_r (get_prop v k) (\<lambda>u. get_path u ks)"

text \<open>
  \<^verbatim>\<open>v.k = x\<close>. On an object the property is overwritten in place or added last. The
  module is compiled as a strict-mode module, where the assignment throws on a
  primitive; it only ever assigns to a value on which a property read two levels deep
  has succeeded, which is an object.
\<close>

fun set_prop :: "jsval \<Rightarrow> string \<Rightarrow> jsval \<Rightarrow> jsval result" where
  "set_prop (JObj fs) k x = Inr (JObj (AList.update k x fs))"
| "set_prop v k x = Inl TypeError"

section \<open>What the module takes from outside\<close>

text \<open>
  \<^verbatim>\<open>toReadableTime\<close> and \<^verbatim>\<open>mstoTime\<close> are imported from \<^verbatim>\<open>../utilities\<close>, which is
  not among the sources; the spec calls them pure functions that give the parts of a
  displayed time. They are parameters of the model, as are the conversions of the
  language that the module applies to values that are no strings or no numbers
  (\<^verbatim>\<open>ToString\<close> in template literals, \<^verbatim>\<open>ToNumber\<close> under \<^verbatim>\<open><\<close>, with \<open>None\<close> for
  NaN), \<^verbatim>\<open>JSON.stringify\<close>, and the addresses that the constructor of the socket
  library accepts: on any other address \<^verbatim>\<open>new Websocket\<close> throws a SyntaxError.
\<close>

record readable =
  hours :: string
  minutes :: string
  seconds :: string

record env =
  toReadableTime :: "jsval \<Rightarrow> readable"
  mstoTime :: "jsval \<Rightarrow> string"
  ToString :: "jsval \<Rightarrow> string"
  ToNumber :: "jsval \<Rightarrow> real option"
  JSON_stringify :: "jsval \<Rightarrow> string"
  Websocket_accepts :: "string \<Rightarrow> bool"

text \<open>\<^verbatim>\<open>`${v}`\<close>\<close>

definition to_text :: "env \<Rightarrow> jsval \<Rightarrow> string" where
  "to_text en v = (case v of JStr s \<Rightarrow> s | _ \<Rightarrow> ToString en v)"

text \<open>\<^verbatim>\<open>v < 0\<close>: both sides become numbers, and a comparison with NaN is false.\<close>

definition lt_zero :: "env \<Rightarrow> jsval \<Rightarrow> bool" where
  "lt_zero en v =
     (case v of
        JNum n \<Rightarrow> n < 0
      | _ \<Rightarrow> (case ToNumber en v of None \<Rightarrow> False | Some n \<Rightarrow> n < 0))"

text \<open>The members of \<^verbatim>\<open>variableId\<close> and \<^verbatim>\<open>feedbackId\<close> (\<^verbatim>\<open>../enums\<close>) and of the host's
  \<^verbatim>\<open>InstanceStatus\<close> that the module names.\<close>

datatype variableId =
    Time | TimeHM | TimeH | TimeM | TimeS | Clock | TimerStart | TimerFinish | TimerDelay
  | PlayState | OnAir
  | TitleNow | SubtitleNow | SpeakerNow | NoteNow
  | TitleNext | SubtitleNext | SpeakerNext | NoteNext
  | SpeakerMessage | PublicMessage | LowerMessage

datatype feedbackId =
    ColorRunning | ColorPaused | ColorStopped | ColorRoll | ColorNegative
  | FbOnAir | SpeakerMessageVisible | PublicMessageVisible | LowerMessageVisible

datatype InstanceStatus = Ok | Connecting | Disconnected | BadConfig

datatype level = Debug | Error

text \<open>
  Every call the module makes on the host, on a socket and on the HTTP client, in the
  order it makes them. A socket, a timer and a request are named by a number given
  when they are made.
\<close>

datatype effect =
    UpdateStatus InstanceStatus "string option"
  | Log level string
  | LogThrown level exn
  | SetVariableValues "(variableId \<times> jsval) list"
  | CheckFeedbacks "feedbackId list"
  | InitActions
  | NewWebsocket nat string
  | WsCloseCall nat
  | WsSend nat string
  | HttpGet nat string
  | Uncaught exn

datatype readyState = CONNECTING | OPEN | CLOSING | CLOSED

text \<open>Who awaits a request: the handler of \<^verbatim>\<open>ontime-refetch\<close>, which goes on to
  \<^verbatim>\<open>init_actions\<close>, or a caller outside the module.\<close>

datatype caller = Refetch | Outside

section \<open>The state\<close>

text \<open>
  The variables of the module (\<open>ws\<close>, \<open>reconnectionTimeout\<close>, \<open>shouldReconnect\<close>), the
  fields of \<^verbatim>\<open>self\<close> it reads and writes (\<^verbatim>\<open>config.host\<close>, \<^verbatim>\<open>config.port\<close>, \<open>states\<close>,
  \<open>events\<close>), and the environment: the state of each socket, the timers and requests
  that are pending, and the calls made so far. The host is a string, as the module
  uses it (\<^verbatim>\<open>pattern.test(host)\<close>, \<^verbatim>\<open>host.replace\<close>), or \<open>None\<close> when it is not
  configured; the port is a number or a string.
\<close>

record world =
  ws :: "nat option"
  reconnectionTimeout :: "nat option"
  shouldReconnect :: bool
  host :: "string option"
  port :: jsval
  states :: jsval
  events :: jsval
  readyStateOf :: "nat \<Rightarrow> readyState"
  next_socket :: nat
  timers :: "(nat \<times> nat) list"
  next_timer :: nat
  fetches :: "(nat \<times> caller) list"
  next_fetch :: nat
  effects :: "effect list"

definition reconnectInterval :: nat where
  "reconnectInterval = 1000"

definition emit :: "effect \<Rightarrow> world \<Rightarrow> world" where
  "emit e w = w\<lparr>effects := effects w @ [e]\<rparr>"

text \<open>\<^verbatim>\<open>setTimeout(callback, delay)\<close>: the only callback the module ever schedules is
  the reconnection's, so a pending timer is its handle and its delay.\<close>

definition setTimeout :: "nat \<Rightarrow> world \<Rightarrow> nat \<times> world" where
  "setTimeout delay w =
     (next_timer w, w\<lparr>timers := timers w @ [(next_timer w, delay)], next_timer := Suc (next_timer w)\<rparr>)"

text \<open>\<^verbatim>\<open>clearTimeout(handle)\<close>; a handle that is \<^verbatim>\<open>null\<close> or no longer pending clears
  nothing.\<close>

definition clearTimeout :: "nat option \<Rightarrow> world \<Rightarrow> world" where
  "clearTimeout h w =
     (case h of None \<Rightarrow> w | Some t \<Rightarrow> w\<lparr>timers := filter (\<lambda>p. fst p \<noteq> t) (timers w)\<rparr>)"

text \<open>\<^verbatim>\<open>socket.close()\<close> starts the closing handshake unless the socket is closed; the
  close event comes later.\<close>

definition ws_close :: "nat \<Rightarrow> world \<Rightarrow> world" where
  "ws_close i w =
     emit (WsCloseCall i)
       (w\<lparr>readyStateOf := (readyStateOf w)(i := (if readyStateOf w i = CLOSED then CLOSED else CLOSING))\<rparr>)"

text \<open>
  \<^verbatim>\<open>ws = new Websocket(uri)\<close>, line 34. On an address that the constructor does not
  accept it throws before \<open>ws\<close> is assigned and before a handler is set: the throw
  leaves \<^verbatim>\<open>connect\<close> (\<open>Uncaught\<close> records it) and the state stays as the lines before
  have left it.
\<close>

definition new_Websocket :: "env \<Rightarrow> string \<Rightarrow> world \<Rightarrow> world" where
  "new_Websocket en uri w =
     (if Websocket_accepts en uri then
        emit (NewWebsocket (next_socket w) uri)
          (w\<lparr>ws := Some (next_socket w),
             readyStateOf := (readyStateOf w)(next_socket w := CONNECTING),
             next_socket := Suc (next_socket w)\<rparr>)
      else emit (Uncaught SyntaxError) w)"

section \<open>connect and the handlers of a socket\<close>

text \<open>\<^verbatim>\<open>!host\<close>: the host is missing or the empty string. In a template literal a
  missing host prints as \<^verbatim>\<open>undefined\<close>.\<close>

definition falsy_host :: "string option \<Rightarrow> bool" where
  "falsy_host h = (case h of None \<Rightarrow> True | Some s \<Rightarrow> s = [])"

definition host_text :: "string option \<Rightarrow> string" where
  "host_text h = (case h of None \<Rightarrow> ''undefined'' | Some s \<Rightarrow> s)"

text \<open>The pattern \<^verbatim>\<open>/^((http|https):\/\/)/\<close>: \<^verbatim>\<open>pattern.test(s)\<close> and
  \<^verbatim>\<open>s.replace(pattern, '')\<close>.\<close>

definition pattern_test :: "string \<Rightarrow> bool" where
  "pattern_test s = (take 7 s = ''http://'' \<or> take 8 s = ''https://'')"

definition pattern_replace :: "string \<Rightarrow> string" where
  "pattern_replace s =
     (if take 7 s = ''http://'' then drop 7 s
      else if take 8 s = ''https://'' then drop 8 s
      else s)"

text \<open>
  \<^verbatim>\<open>connect\<close>, lines 13 to 34. The value of \<^verbatim>\<open>host.replace(pattern, '')\<close> on line 31
  is not assigned to anything (\<^verbatim>\<open>host\<close> is a \<^verbatim>\<open>const\<close>): it is \<open>discarded\<close> here,
  and the address is built from \<open>h\<close>.
\<close>

definition connect :: "env \<Rightarrow> world \<Rightarrow> world" where
  "connect en w =
     (if falsy_host (host w) \<or> \<not> truthy (port w) then
        emit (UpdateStatus BadConfig (Some ''no host and/or port defined'')) w
      else
        (let h = host_text (host w);
             w1 = emit (UpdateStatus Connecting None) w;
             w2 = (case ws w1 of None \<Rightarrow> w1 | Some i \<Rightarrow> ws_close i w1);
             discarded = (if pattern_test h then Some (pattern_replace h) else None)
         in new_Websocket en (''ws://'' @ h @ '':'' @ to_text en (port w2) @ ''/ws'') w2))"

definition onopen :: "env \<Rightarrow> world \<Rightarrow> world" where
  "onopen en w =
     emit (Log Debug ''Socket connected'')
       (emit (UpdateStatus Ok None) (clearTimeout (reconnectionTimeout w) w))"

text \<open>The callback of the timer that \<^verbatim>\<open>onclose\<close> sets, lines 46 to 50.\<close>

definition reconnect_callback :: "env \<Rightarrow> world \<Rightarrow> world" where
  "reconnect_callback en w =
     (case ws w of
        None \<Rightarrow> w
      | Some i \<Rightarrow> if readyStateOf w i = CLOSED then connect en w else w)"

definition onclose :: "env \<Rightarrow> jsval \<Rightarrow> world \<Rightarrow> world" where
  "onclose en code w =
     (let msg = ''Connection closed with code '' @ to_text en code;
          w1 = emit (Log Debug msg) w;
          w2 = emit (UpdateStatus Disconnected (Some msg)) w1
      in if shouldReconnect w2 then
           (case setTimeout reconnectInterval w2 of
              (t, w3) \<Rightarrow> w3\<lparr>reconnectionTimeout := Some t\<rparr>)
         else w2)"

definition onerror :: "env \<Rightarrow> jsval \<Rightarrow> world \<Rightarrow> world" where
  "onerror en data w = emit (Log Debug (''WebSocket error: '' @ to_text en data)) w"

section \<open>initEvents\<close>

text \<open>
  \<^verbatim>\<open>initEvents\<close> is asynchronous. It runs to the \<^verbatim>\<open>await\<close> when it is called
  (\<open>initEvents_start\<close>: the request is made and pending) and goes on when the request
  is settled (\<open>initEvents_settle\<close>). The request is \<open>Rejected\<close> on a network error and
  on a status that is no 2xx; otherwise it is \<open>Resolved\<close> with the response's
  \<^verbatim>\<open>data\<close>, the parsed body. A body that does not parse as JSON does not reject the
  request: the client, as the module configures it, hands the body over as it is, a
  string.
\<close>

datatype http_result = Rejected | Resolved jsval

definition initEvents_start :: "env \<Rightarrow> caller \<Rightarrow> world \<Rightarrow> world" where
  "initEvents_start en c w =
     (let w1 = emit (Log Debug ''fetching events from ontime'') w;
          url = ''http://'' @ host_text (host w1) @ '':'' @ to_text en (port w1) @ ''/events''
      in emit (HttpGet (next_fetch w1) url)
           (w1\<lparr>fetches := fetches w1 @ [(next_fetch w1, c)], next_fetch := Suc (next_fetch w1)\<rparr>))"

text \<open>The arrow function of line 168.\<close>

definition event_of :: "jsval \<Rightarrow> jsval result" where
  "event_of evt =
     bind_r (get_prop evt ''id'') (\<lambda>i.
     bind_r (get_prop evt ''title'') (\<lambda>t.
     Inr (JObj [(''id'', i), (''label'', t)])))"

fun map_r :: "('a \<Rightarrow> 'b result) \<Rightarrow> 'a list \<Rightarrow> 'b list result" where
  "map_r f [] = Inr []"
| "map_r f (x # xs) = bind_r (f x) (\<lambda>y. bind_r (map_r f xs) (\<lambda>ys. Inr (y # ys)))"

text \<open>\<^verbatim>\<open>v.map(f)\<close>: a value that is no array has no function \<^verbatim>\<open>map\<close>.\<close>

definition array_map :: "(jsval \<Rightarrow> jsval result) \<Rightarrow> jsval \<Rightarrow> jsval result" where
  "array_map f v =
     (case v of
        JArr xs \<Rightarrow> bind_r (map_r f xs) (\<lambda>ys. Inr (JArr ys))
      | _ \<Rightarrow> Inl TypeError)"

text \<open>The \<^verbatim>\<open>try\<close> block from the \<^verbatim>\<open>await\<close> on, lines 166 to 171: what it throws, if
  anything, and the state it leaves.\<close>

definition initEvents_try :: "env \<Rightarrow> http_result \<Rightarrow> world \<Rightarrow> exn option \<times> world" where
  "initEvents_try en r w =
     (case r of
        Rejected \<Rightarrow> (Some AxiosError, w)
      | Resolved d \<Rightarrow>
          (case get_prop d ''length'' of
             Inl e \<Rightarrow> (Some e, w)
           | Inr n \<Rightarrow>
               (let w1 = emit (Log Debug (''fetched '' @ to_text en n @ '' events'')) w
                in case array_map event_of d of
                     Inl e \<Rightarrow> (Some e, w1)
                   | Inr evs \<Rightarrow> (None, w1\<lparr>events := evs\<rparr>))))"

text \<open>With the \<^verbatim>\<open>catch\<close> of lines 172 to 175: the first component is what rejects the
  promise that \<^verbatim>\<open>initEvents\<close> returns.\<close>

definition initEvents_settle :: "env \<Rightarrow> http_result \<Rightarrow> world \<Rightarrow> exn option \<times> world" where
  "initEvents_settle en r w =
     (case initEvents_try en r w of
        (None, w1) \<Rightarrow> (None, w1)
      | (Some e, w1) \<Rightarrow>
          (None, emit (LogThrown Error e)
                   (emit (Log Error ''failed to fetch events from ontime'') w1)))"

section \<open>The handler of a message\<close>

text \<open>The properties of the object literal of lines 93 to 107 that are read from
  \<^verbatim>\<open>self.states\<close>, in the order they are read.\<close>

definition state_entries :: "(variableId \<times> string list) list" where
  "state_entries =
     [(PlayState, [''playback'']),
      (OnAir, [''onAir'']),
      (TitleNow, [''titles'', ''titleNow'']),
      (SubtitleNow, [''titles'', ''subtitleNow'']),
      (SpeakerNow, [''titles'', ''presenterNow'']),
      (NoteNow, [''titles'', ''noteNow'']),
      (TitleNext, [''titles'', ''titleNext'']),
      (SubtitleNext, [''titles'', ''subtitleNext'']),
      (SpeakerNext, [''titles'', ''presenterNext'']),
      (NoteNext, [''titles'', ''noteNext'']),
      (SpeakerMessage, [''timerMessage'', ''text'']),
      (PublicMessage, [''publicMessage'', ''text'']),
      (LowerMessage, [''lowerMessage'', ''text''])]"

fun read_entries :: "jsval \<Rightarrow> (variableId \<times> string list) list \<Rightarrow> (variableId \<times> jsval) list result" where
  "read_entries st [] = Inr []"
| "read_entries st ((v, p) # ps) =
     bind_r (get_path st p) (\<lambda>x. bind_r (read_entries st ps) (\<lambda>r. Inr ((v, x) # r)))"

definition hms :: "readable \<Rightarrow> string" where
  "hms t = hours t @ '':'' @ minutes t @ '':'' @ seconds t"

text \<open>The properties of lines 83 to 91, made from the times of lines 75 to 79.\<close>

definition time_entries ::
    "readable \<Rightarrow> readable \<Rightarrow> readable \<Rightarrow> readable \<Rightarrow> string \<Rightarrow> (variableId \<times> jsval) list" where
  "time_entries timer clock timer_start timer_finish delay =
     [(Time, JStr (hms timer)),
      (TimeHM, JStr (hours timer @ '':'' @ minutes timer)),
      (TimeH, JStr (hours timer)),
      (TimeM, JStr (minutes timer)),
      (TimeS, JStr (seconds timer)),
      (Clock, JStr (hms clock)),
      (TimerStart, JStr (hms timer_start)),
      (TimerFinish, JStr (hms timer_finish)),
      (TimerDelay, JStr delay)]"

definition checked_feedbacks :: "feedbackId list" where
  "checked_feedbacks =
     [ColorRunning, ColorPaused, ColorStopped, ColorRoll, ColorNegative, FbOnAir,
      SpeakerMessageVisible, PublicMessageVisible, LowerMessageVisible]"

text \<open>
  The branch of \<^verbatim>\<open>type === 'ontime'\<close>, lines 71 to 119. The payload is stored first.
  Lines 75 to 80 read \<^verbatim>\<open>self.states.timer\<close> six times and end with the assignment of
  \<^verbatim>\<open>isNegative\<close>; the object literal is evaluated next, and the two calls on the host
  come last. The result is what the branch throws, if anything, and the state it
  leaves.
\<close>

definition ontime_message :: "env \<Rightarrow> jsval \<Rightarrow> world \<Rightarrow> exn option \<times> world" where
  "ontime_message en payload w =
     (let w1 = w\<lparr>states := payload\<rparr> in
      case
        bind_r (get_path (states w1) [''timer'', ''current'']) (\<lambda>cur.
        bind_r (get_path (states w1) [''timer'', ''clock'']) (\<lambda>clk.
        bind_r (get_path (states w1) [''timer'', ''startedAt'']) (\<lambda>sta.
        bind_r (get_path (states w1) [''timer'', ''expectedFinish'']) (\<lambda>fin.
        bind_r (get_path (states w1) [''timer'', ''addedTime'']) (\<lambda>added.
        bind_r (get_path (states w1) [''timer'', ''current'']) (\<lambda>cur2.
        bind_r (set_prop (states w1) ''isNegative'' (JBool (lt_zero en cur2))) (\<lambda>st.
        Inr (time_entries (toReadableTime en cur) (toReadableTime en clk)
               (toReadableTime en sta) (toReadableTime en fin) (mstoTime en added), st))))))))
      of
        Inl e \<Rightarrow> (Some e, w1)
      | Inr (tvs, st) \<Rightarrow>
          (let w2 = w1\<lparr>states := st\<rparr> in
           case read_entries (states w2) state_entries of
             Inl e \<Rightarrow> (Some e, w2)
           | Inr vs \<Rightarrow>
               (None, emit (CheckFeedbacks checked_feedbacks)
                        (emit (SetVariableValues (tvs @ vs)) w2))))"

text \<open>The branch of \<^verbatim>\<open>type === 'ontime-refetch'\<close>, lines 123 to 132, up to the
  \<^verbatim>\<open>await\<close> inside \<^verbatim>\<open>initEvents\<close>, and the two functions given to \<^verbatim>\<open>then\<close>.\<close>

definition refetch_message :: "env \<Rightarrow> world \<Rightarrow> exn option \<times> world" where
  "refetch_message en w =
     (None, initEvents_start en Refetch
              ((emit (Log Debug ''refetching events'') w)\<lparr>events := JArr []\<rparr>))"

definition refetch_then :: "exn option \<Rightarrow> world \<Rightarrow> world" where
  "refetch_then outcome w =
     (case outcome of None \<Rightarrow> emit InitActions w | Some e \<Rightarrow> emit (LogThrown Debug e) w)"

text \<open>
  The \<^verbatim>\<open>try\<close> block of \<^verbatim>\<open>ws.onmessage\<close>, lines 60 to 133. Its input is what
  \<^verbatim>\<open>JSON.parse(event.data)\<close> gives: the parsed value, or the error it throws on data
  that is no JSON. Destructuring \<^verbatim>\<open>null\<close> throws.
\<close>

definition onmessage_try :: "env \<Rightarrow> jsval result \<Rightarrow> world \<Rightarrow> exn option \<times> world" where
  "onmessage_try en parsed w =
     (case parsed of
        Inl e \<Rightarrow> (Some e, w)
      | Inr data \<Rightarrow>
          (case bind_r (get_prop data ''type'') (\<lambda>ty.
                bind_r (get_prop data ''payload'') (\<lambda>payload. Inr (ty, payload))) of
             Inl e \<Rightarrow> (Some e, w)
           | Inr (ty, payload) \<Rightarrow>
               if \<not> truthy ty then (None, w)
               else
                 (case (if ty = JStr ''ontime'' then ontime_message en payload w else (None, w)) of
                    (Some e, w1) \<Rightarrow> (Some e, w1)
                  | (None, w1) \<Rightarrow>
                      if ty = JStr ''ontime-refetch'' then refetch_message en w1 else (None, w1))))"

text \<open>With the \<^verbatim>\<open>catch\<close> of lines 134 to 136, which ignores what was thrown: the first
  component is what leaves the handler.\<close>

definition onmessage :: "env \<Rightarrow> jsval result \<Rightarrow> world \<Rightarrow> exn option \<times> world" where
  "onmessage en parsed w = (case onmessage_try en parsed w of (thrown, w1) \<Rightarrow> (None, w1))"

section \<open>disconnectSocket, socketSend, socketSendJson\<close>

definition disconnectSocket :: "world \<Rightarrow> world" where
  "disconnectSocket w =
     (let w1 = w\<lparr>shouldReconnect := False\<rparr>;
          w2 = (if reconnectionTimeout w1 \<noteq> None then clearTimeout (reconnectionTimeout w1) w1 else w1)
      in case ws w2 of None \<Rightarrow> w2 | Some i \<Rightarrow> ws_close i w2)"

definition socketSend :: "string \<Rightarrow> world \<Rightarrow> world" where
  "socketSend message w =
     (case ws w of
        None \<Rightarrow> w
      | Some i \<Rightarrow> if readyStateOf w i = OPEN then emit (WsSend i message) w else w)"

definition socketSendJson :: "env \<Rightarrow> string \<Rightarrow> jsval \<Rightarrow> world \<Rightarrow> world" where
  "socketSendJson en ty payload w =
     socketSend (JSON_stringify en (JObj [(''type'', JStr ty), (''payload'', payload)])) w"

section \<open>The module at run time\<close>

text \<open>
  What happens to the module: a call of one of its exported functions, or an event of
  the environment. The environment opens a socket that is connecting, closes a socket
  that is not closed yet, delivers a message on an open socket, fires a timer that is
  pending and settles a request that is pending; the handler then runs to its end.
\<close>

datatype event =
    CallConnect
  | CallDisconnectSocket
  | CallSocketSend string
  | CallSocketSendJson string jsval
  | CallInitEvents
  | SocketOpened nat
  | SocketClosed nat jsval
  | SocketError nat jsval
  | SocketMessage nat "jsval result"
  | TimerFired nat
  | HttpSettled nat http_result

definition pending :: "nat \<Rightarrow> (nat \<times> 'a) list \<Rightarrow> bool" where
  "pending t ps = (map_of ps t \<noteq> None)"

definition remove :: "nat \<Rightarrow> (nat \<times> 'a) list \<Rightarrow> (nat \<times> 'a) list" where
  "remove t ps = filter (\<lambda>p. fst p \<noteq> t) ps"

definition set_readyState :: "nat \<Rightarrow> readyState \<Rightarrow> world \<Rightarrow> world" where
  "set_readyState i r w = w\<lparr>readyStateOf := (readyStateOf w)(i := r)\<rparr>"

definition http_settled :: "env \<Rightarrow> nat \<Rightarrow> http_result \<Rightarrow> world \<Rightarrow> world" where
  "http_settled en rid r w =
     (case map_of (fetches w) rid of
        None \<Rightarrow> w
      | Some c \<Rightarrow>
          (case initEvents_settle en r (w\<lparr>fetches := remove rid (fetches w)\<rparr>) of
             (outcome, w1) \<Rightarrow>
               (case c of Refetch \<Rightarrow> refetch_then outcome w1 | Outside \<Rightarrow> w1)))"

fun step :: "env \<Rightarrow> world \<Rightarrow> event \<Rightarrow> world" where
  "step en w CallConnect = connect en w"
| "step en w CallDisconnectSocket = disconnectSocket w"
| "step en w (CallSocketSend m) = socketSend m w"
| "step en w (CallSocketSendJson ty payload) = socketSendJson en ty payload w"
| "step en w CallInitEvents = initEvents_start en Outside w"
| "step en w (SocketOpened i) =
     (if i < next_socket w \<and> readyStateOf w i = CONNECTING
      then onopen en (set_readyState i OPEN w) else w)"
| "step en w (SocketClosed i code) =
     (if i < next_socket w \<and> readyStateOf w i \<noteq> CLOSED
      then onclose en code (set_readyState i CLOSED w) else w)"
| "step en w (SocketError i data) =
     (if i < next_socket w then onerror en data w else w)"
| "step en w (SocketMessage i parsed) =
     (if i < next_socket w \<and> readyStateOf w i = OPEN
      then snd (onmessage en parsed w) else w)"
| "step en w (TimerFired t) =
     (if pending t (timers w)
      then reconnect_callback en (w\<lparr>timers := remove t (timers w)\<rparr>) else w)"
| "step en w (HttpSettled rid r) = http_settled en rid r w"

fun run :: "env \<Rightarrow> world \<Rightarrow> event list \<Rightarrow> world" where
  "run en w [] = w"
| "run en w (e # es) = run en (step en w e) es"

text \<open>
  The module when it is loaded (lines 8 to 11): no socket, no timer,
  \<open>shouldReconnect\<close> true. The host's configuration, states and events are given.
\<close>

definition initial :: "string option \<Rightarrow> jsval \<Rightarrow> jsval \<Rightarrow> jsval \<Rightarrow> world" where
  "initial h p st evs =
     \<lparr>ws = None, reconnectionTimeout = None, shouldReconnect = True,
      host = h, port = p, states = st, events = evs,
      readyStateOf = (\<lambda>i. CONNECTING), next_socket = 0,
      timers = [], next_timer = 0, fetches = [], next_fetch = 0, effects = []\<rparr>"

section \<open>Notions of the specification, and values for the examples\<close>

text \<open>\<^verbatim>\<open>v.k\<close> on a value that is neither \<^verbatim>\<open>undefined\<close> nor \<^verbatim>\<open>null\<close>, where the read
  does not throw.\<close>

definition nullish :: "jsval \<Rightarrow> bool" where
  "nullish v = (v = JUndefined \<or> v = JNull)"

definition field :: "jsval \<Rightarrow> string \<Rightarrow> jsval" where
  "field v k = (case get_prop v k of Inl e \<Rightarrow> JUndefined | Inr x \<Rightarrow> x)"

text \<open>The record \<^verbatim>\<open>{id: element.id, label: element.title}\<close> of the specification.\<close>

definition event_record :: "jsval \<Rightarrow> jsval" where
  "event_record e = JObj [(''id'', field e ''id''), (''label'', field e ''title'')]"

text \<open>An environment for the examples: every time prints as zero, the conversions of
  the language are not needed by the examples, which use strings where a text is made
  and numbers where one is compared, and the addresses of the examples are accepted
  (\<^verbatim>\<open>ws://http://localhost:4001/ws\<close> is a URL, with the host \<^verbatim>\<open>http\<close>).\<close>

definition zero_time :: readable where
  "zero_time = \<lparr>hours = ''00'', minutes = ''00'', seconds = ''00''\<rparr>"

definition env0 :: env where
  "env0 =
     \<lparr>toReadableTime = (\<lambda>v. zero_time),
      mstoTime = (\<lambda>v. ''00:00:00''),
      ToString = (\<lambda>v. []),
      ToNumber = (\<lambda>v. None),
      JSON_stringify = (\<lambda>v. []),
      Websocket_accepts = (\<lambda>u. True)\<rparr>"

text \<open>The module as loaded, configured for \<^verbatim>\<open>localhost\<close> and port \<^verbatim>\<open>4001\<close>, with no
  states and an empty event directory.\<close>

definition w0 :: world where
  "w0 = initial (Some ''localhost'') (JStr ''4001'') JUndefined (JArr [])"



text \<open>
  A request that fails, in the words of the specification: a network error or a
  status that is no 2xx, which reject it, or a body that is no JSON, which arrives as
  a string. What such a run of \<open>initEvents\<close> logs after the request has settled: with
  a string, the number of events first, which is the length of the string, and then,
  in both cases, the failure and what was thrown.
\<close>

definition http_failed :: "http_result \<Rightarrow> bool" where
  "http_failed r =
     (case r of
        Rejected \<Rightarrow> True
      | Resolved d \<Rightarrow> (case d of JStr s \<Rightarrow> True | _ \<Rightarrow> False))"

definition failure_log :: "env \<Rightarrow> http_result \<Rightarrow> effect list" where
  "failure_log en r =
     (case r of
        Rejected \<Rightarrow>
          [Log Error ''failed to fetch events from ontime'', LogThrown Error AxiosError]
      | Resolved d \<Rightarrow>
          [Log Debug (''fetched '' @ to_text en (field d ''length'') @ '' events''),
           Log Error ''failed to fetch events from ontime'', LogThrown Error TypeError])"

text \<open>An event directory of one event, stored by an earlier run.\<close>

definition old_events :: jsval where
  "old_events = JArr [JObj [(''id'', JStr ''7''), (''label'', JStr ''Old'')]]"



text \<open>
  Two sockets that close within the delay of a reconnection, then a disconnection:
  \<open>connect\<close> is called and its socket closes, \<open>connect\<close> is called again before the
  timer of that close fires and the second socket closes too, and \<open>disconnectSocket\<close>
  is called.
\<close>

definition two_closes_then_disconnect :: "event list" where
  "two_closes_then_disconnect =
     [CallConnect, SocketClosed 0 (JStr ''1006''),
      CallConnect, SocketClosed 1 (JStr ''1006''),
      CallDisconnectSocket]"

text \<open>
  Two messages \<^verbatim>\<open>ontime-refetch\<close> on an open socket, so that two requests are
  pending; the first is answered with one event, the second fails.
\<close>

definition two_refetches :: "event list" where
  "two_refetches =
     [CallConnect, SocketOpened 0,
      SocketMessage 0 (Inr (JObj [(''type'', JStr ''ontime-refetch'')])),
      SocketMessage 0 (Inr (JObj [(''type'', JStr ''ontime-refetch'')])),
      HttpSettled 0 (Resolved (JArr [JObj [(''id'', JStr ''1''), (''title'', JStr ''Open'')]])),
      HttpSettled 1 Rejected]"

section \<open>Properties of the values\<close>


lemma get_prop_field: "\<not> nullish v \<Longrightarrow> get_prop v k = Inr (field v k)"
  by (cases v) (auto simp: nullish_def field_def)

lemma event_of_record: "\<not> nullish x \<Longrightarrow> event_of x = Inr (event_record x)"
  by (simp add: event_of_def event_record_def bind_r_def get_prop_field)

lemma map_r_event_of:
  "\<forall>x\<in>set xs. \<not> nullish x \<Longrightarrow> map_r event_of xs = Inr (map event_record xs)"
  by (induction xs) (simp_all add: bind_r_def event_of_record)





section \<open>Properties of the handler of a message\<close>




section \<open>Properties of initEvents\<close>

lemma initEvents_start_events: "events (initEvents_start en c w) = events w"
  by (simp add: initEvents_start_def emit_def Let_def)

text \<open>After a request that has failed, the log is all that the rest of \<open>initEvents\<close>
  changes.\<close>

lemma initEvents_settle_failed:
  assumes "http_failed r"
  shows "initEvents_settle en r w = (None, w\<lparr>effects := effects w @ failure_log en r\<rparr>)"
proof (cases r)
  case Rejected
  then show ?thesis
    by (simp add: initEvents_settle_def initEvents_try_def failure_log_def emit_def)
next
  case (Resolved d)
  with assms obtain s where d: "d = JStr s"
    by (cases d) (simp_all add: http_failed_def)
  show ?thesis
    by (simp add: Resolved d initEvents_settle_def initEvents_try_def failure_log_def
        array_map_def field_def emit_def Let_def)
qed

lemma http_settled_failed_events:
  assumes "http_failed r"
  shows "events (http_settled en rid r w) = events w"
proof (cases "map_of (fetches w) rid")
  case None
  then show ?thesis by (simp add: http_settled_def)
next
  case (Some c)
  then show ?thesis
    by (simp add: http_settled_def initEvents_settle_failed [OF assms] refetch_then_def
        emit_def split: caller.splits)
qed

section \<open>No operation but disconnectSocket writes shouldReconnect\<close>

lemma sr_emit [simp]: "shouldReconnect (emit e w) = shouldReconnect w"
  by (simp add: emit_def)

lemma sr_clearTimeout [simp]: "shouldReconnect (clearTimeout h w) = shouldReconnect w"
  by (simp add: clearTimeout_def split: option.splits)

lemma sr_ws_close [simp]: "shouldReconnect (ws_close i w) = shouldReconnect w"
  by (simp add: ws_close_def)

lemma sr_new_Websocket [simp]: "shouldReconnect (new_Websocket en u w) = shouldReconnect w"
  by (simp add: new_Websocket_def)

lemma sr_connect [simp]: "shouldReconnect (connect en w) = shouldReconnect w"
  by (simp add: connect_def Let_def split: option.splits)

lemma sr_onopen [simp]: "shouldReconnect (onopen en w) = shouldReconnect w"
  by (simp add: onopen_def)

lemma sr_onclose [simp]: "shouldReconnect (onclose en c w) = shouldReconnect w"
  by (simp add: onclose_def setTimeout_def Let_def)

lemma sr_onerror [simp]: "shouldReconnect (onerror en d w) = shouldReconnect w"
  by (simp add: onerror_def)

lemma sr_reconnect_callback [simp]:
  "shouldReconnect (reconnect_callback en w) = shouldReconnect w"
  by (simp add: reconnect_callback_def split: option.splits)

lemma sr_initEvents_start [simp]:
  "shouldReconnect (initEvents_start en c w) = shouldReconnect w"
  by (simp add: initEvents_start_def Let_def)

lemma sr_initEvents_settle [simp]:
  "shouldReconnect (snd (initEvents_settle en r w)) = shouldReconnect w"
  by (simp add: initEvents_settle_def initEvents_try_def Let_def
      split: http_result.splits sum.splits option.splits prod.splits)

lemma sr_ontime_message [simp]:
  "shouldReconnect (snd (ontime_message en p w)) = shouldReconnect w"
  by (simp add: ontime_message_def Let_def split: sum.splits prod.splits)

lemma sr_refetch_message [simp]:
  "shouldReconnect (snd (refetch_message en w)) = shouldReconnect w"
  by (simp add: refetch_message_def)

lemma sr_onmessage [simp]: "shouldReconnect (snd (onmessage en p w)) = shouldReconnect w"
proof -
  have "shouldReconnect (snd (onmessage_try en p w)) = shouldReconnect w"
    unfolding onmessage_try_def
    by (auto split: sum.splits prod.splits option.splits
        dest: arg_cong [where f = "\<lambda>x. shouldReconnect (snd x)"])
  then show ?thesis by (cases "onmessage_try en p w") (simp add: onmessage_def)
qed

lemma sr_http_settled [simp]: "shouldReconnect (http_settled en i r w) = shouldReconnect w"
proof (cases "map_of (fetches w) i")
  case None
  then show ?thesis by (simp add: http_settled_def)
next
  case (Some c)
  have "shouldReconnect (snd (initEvents_settle en r (w\<lparr>fetches := remove i (fetches w)\<rparr>))) =
        shouldReconnect w"
    by simp
  with Some show ?thesis
    by (cases "initEvents_settle en r (w\<lparr>fetches := remove i (fetches w)\<rparr>)")
      (simp add: http_settled_def refetch_then_def split: caller.splits option.splits)
qed

lemma sr_socketSend [simp]: "shouldReconnect (socketSend m w) = shouldReconnect w"
  by (simp add: socketSend_def split: option.splits)

lemma sr_disconnectSocket [simp]: "shouldReconnect (disconnectSocket w) = False"
  by (simp add: disconnectSocket_def Let_def split: option.splits)

lemma sr_step:
  "shouldReconnect (step en w e) = (shouldReconnect w \<and> e \<noteq> CallDisconnectSocket)"
  by (cases e) (simp_all add: socketSendJson_def set_readyState_def)

lemma sr_run: "\<not> shouldReconnect w \<Longrightarrow> \<not> shouldReconnect (run en w es)"
  by (induction es arbitrary: w) (simp_all add: sr_step)

lemma onclose_disabled:
  "\<not> shouldReconnect w \<Longrightarrow> timers (onclose en c w) = timers w"
  by (simp add: onclose_def Let_def emit_def)

text \<open>The definitions that a run of the examples unfolds.\<close>

lemmas run_defs =
  connect_def onclose_def onopen_def disconnectSocket_def reconnect_callback_def
  emit_def setTimeout_def clearTimeout_def ws_close_def new_Websocket_def set_readyState_def
  falsy_host_def host_text_def to_text_def pending_def remove_def reconnectInterval_def
  initial_def w0_def env0_def Let_def

lemmas message_defs =
  onmessage_def onmessage_try_def refetch_message_def initEvents_start_def
  http_settled_def initEvents_settle_def initEvents_try_def refetch_then_def array_map_def
  event_of_def bind_r_def

section \<open>connect\<close>

text \<open>
  Claim C1. For a host that begins with \<^verbatim>\<open>http://\<close> or \<^verbatim>\<open>https://\<close>, the socket is to
  be opened at \<^verbatim>\<open>ws://<stripped-host>:<port>/ws\<close>. The code computes the stripped host
  and drops it: configured with host \<^verbatim>\<open>http://localhost\<close> and port \<^verbatim>\<open>4001\<close>, where
  the stripped host is \<^verbatim>\<open>localhost\<close>, it opens \<^verbatim>\<open>ws://http://localhost:4001/ws\<close>.
\<close>

theorem connect_opens_unstripped_host:
  "pattern_test ''http://localhost'' \<and>
   pattern_replace ''http://localhost'' = ''localhost'' \<and>
   effects (connect env0 (initial (Some ''http://localhost'') (JStr ''4001'') JUndefined (JArr []))) =
     [UpdateStatus Connecting None, NewWebsocket 0 ''ws://http://localhost:4001/ws'']"
  by (simp add: pattern_test_def pattern_replace_def connect_def initial_def emit_def
      new_Websocket_def env0_def falsy_host_def host_text_def to_text_def Let_def)

text \<open>
  Claim C7. When the configured host or the configured port is missing or falsy,
  \<open>connect\<close> reports the status \<^verbatim>\<open>BadConfig\<close> with its message and does nothing else:
  no socket is made, and nothing of the state changes but the record of that one call.
\<close>

theorem connect_bad_config:
  "falsy_host (host w) \<or> \<not> truthy (port w) \<Longrightarrow>
   connect en w =
     w\<lparr>effects := effects w @ [UpdateStatus BadConfig (Some ''no host and/or port defined'')]\<rparr>"
  by (simp add: connect_def emit_def)

theorem connect_bad_config_witness:
  "falsy_host (host (initial None (JStr ''4001'') JUndefined (JArr []))) \<and>
   connect env0 (initial None (JStr ''4001'') JUndefined (JArr [])) =
     (initial None (JStr ''4001'') JUndefined (JArr []))
       \<lparr>effects := [UpdateStatus BadConfig (Some ''no host and/or port defined'')]\<rparr> \<and>
   \<not> truthy (port (initial (Some ''localhost'') (JNum 0) JUndefined (JArr []))) \<and>
   connect env0 (initial (Some ''localhost'') (JNum 0) JUndefined (JArr [])) =
     (initial (Some ''localhost'') (JNum 0) JUndefined (JArr []))
       \<lparr>effects := [UpdateStatus BadConfig (Some ''no host and/or port defined'')]\<rparr>"
  using connect_bad_config [of "initial None (JStr ''4001'') JUndefined (JArr [])" env0]
    connect_bad_config [of "initial (Some ''localhost'') (JNum 0) JUndefined (JArr [])" env0]
  by (simp add: falsy_host_def initial_def)

section \<open>Reconnection\<close>

text \<open>A close event while reconnection is enabled adds one timer, with the fixed delay,
  and records its handle in place of the one recorded before; \<open>disconnectSocket\<close>
  clears the timer whose handle is recorded.\<close>

lemma onclose_schedules_one:
  "shouldReconnect w \<Longrightarrow>
   timers (onclose en c w) = timers w @ [(next_timer w, reconnectInterval)] \<and>
   reconnectionTimeout (onclose en c w) = Some (next_timer w)"
  by (simp add: onclose_def setTimeout_def emit_def Let_def)

lemma disconnectSocket_clears_recorded:
  "timers (disconnectSocket w) =
     (case reconnectionTimeout w of None \<Rightarrow> timers w | Some t \<Rightarrow> remove t (timers w))"
  by (simp add: disconnectSocket_def clearTimeout_def ws_close_def emit_def remove_def Let_def
      split: option.splits)

text \<open>
  Claim C2. A close event while reconnection is enabled schedules one reconnection,
  and a disconnection before its timer fires is to keep that timer from connecting.
  The code keeps one handle: the second close event overwrites the handle of the first
  timer without clearing it, \<open>disconnectSocket\<close> clears the second timer only, and the
  callback of a timer does not look at \<open>shouldReconnect\<close>. After two closes within
  the delay and a disconnection, the first timer (handle 0, delay 1000) is still
  pending with reconnection disabled, and when it fires it calls \<open>connect\<close>, which
  opens a third socket.
\<close>

theorem stale_timer_connects_after_disconnect:
  "timers (run env0 w0 two_closes_then_disconnect) = [(0, 1000)] \<and>
   reconnectionTimeout (run env0 w0 two_closes_then_disconnect) = Some 1 \<and>
   \<not> shouldReconnect (run env0 w0 two_closes_then_disconnect) \<and>
   effects (run env0 w0 (two_closes_then_disconnect @ [TimerFired 0])) =
     effects (run env0 w0 two_closes_then_disconnect) @
       [UpdateStatus Connecting None, WsCloseCall 1, NewWebsocket 2 ''ws://localhost:4001/ws'']"
  by (simp add: two_closes_then_disconnect_def run_defs)

text \<open>
  Claim C10. \<open>shouldReconnect\<close> is true when the module is loaded. A step of the module
  leaves it as it was, unless the step is a call of \<open>disconnectSocket\<close>, which makes it
  false; hence it is false after a call of \<open>disconnectSocket\<close> and whatever follows,
  calls of \<open>connect\<close> included, and a close event that comes then schedules no timer.
\<close>

theorem shouldReconnect_never_reset:
  "shouldReconnect (initial h p st evs) \<and>
   shouldReconnect (step en w e) = (shouldReconnect w \<and> e \<noteq> CallDisconnectSocket) \<and>
   \<not> shouldReconnect (run en (disconnectSocket w) es) \<and>
   timers (step en (run en (disconnectSocket w) es) (SocketClosed i c)) =
     timers (run en (disconnectSocket w) es)"
proof -
  have off: "\<not> shouldReconnect (run en (disconnectSocket w) es)"
    by (rule sr_run) simp
  then have "\<not> shouldReconnect (set_readyState i CLOSED (run en (disconnectSocket w) es))"
    by (simp add: set_readyState_def)
  then have "timers (onclose en c (set_readyState i CLOSED (run en (disconnectSocket w) es))) =
             timers (set_readyState i CLOSED (run en (disconnectSocket w) es))"
    by (rule onclose_disabled)
  then have "timers (step en (run en (disconnectSocket w) es) (SocketClosed i c)) =
     timers (run en (disconnectSocket w) es)"
    by (simp add: set_readyState_def)
  with off show ?thesis by (simp add: sr_step initial_def)
qed

section \<open>The handler of a message\<close>

text \<open>
  Claim C3. A message of type \<^verbatim>\<open>ontime\<close> whose payload is an object with a timer whose
  \<^verbatim>\<open>current\<close> is a number \<open>c\<close>: the states stored afterwards are the payload, with
  \<^verbatim>\<open>isNegative\<close> set to the truth of \<open>c < 0\<close>, whatever was stored before and whatever
  the rest of the payload holds.
\<close>

theorem ontime_replaces_states:
  assumes ty: "get_prop d ''type'' = Inr (JStr ''ontime'')"
    and pl: "get_prop d ''payload'' = Inr (JObj fs)"
    and tm: "map_of fs ''timer'' = Some t"
    and cur: "get_prop t ''current'' = Inr (JNum c)"
  shows "states (snd (onmessage en (Inr d) w)) =
           JObj (AList.update ''isNegative'' (JBool (c < 0)) fs) \<and>
         get_prop (states (snd (onmessage en (Inr d) w))) ''isNegative'' = Inr (JBool (c < 0))"
proof -
  have nn: "\<not> nullish t" using cur by (cases t) (auto simp: nullish_def)
  have paths: "\<And>k. get_path (JObj fs) [''timer'', k] = Inr (field t k)"
    using tm nn by (simp add: bind_r_def get_prop_field)
  have fc: "field t ''current'' = JNum c" using cur by (simp add: field_def)
  have "states (snd (onmessage en (Inr d) w)) =
          JObj (AList.update ''isNegative'' (JBool (c < 0)) fs)"
    by (simp add: onmessage_def onmessage_try_def ty pl bind_r_def ontime_message_def paths fc
        lt_zero_def Let_def emit_def del: get_path.simps split: sum.splits prod.splits)
  then show ?thesis by (simp add: update_conv')
qed

theorem ontime_replaces_states_witness:
  "states (snd (onmessage env0
      (Inr (JObj [(''type'', JStr ''ontime''),
                  (''payload'', JObj [(''timer'', JObj [(''current'', JNum (- 500))])])]))
      (w0\<lparr>states := JObj [(''playback'', JStr ''stop'')]\<rparr>))) =
     JObj [(''timer'', JObj [(''current'', JNum (- 500))]), (''isNegative'', JBool True)] \<and>
   states (snd (onmessage env0
      (Inr (JObj [(''type'', JStr ''ontime''),
                  (''payload'', JObj [(''timer'', JObj [(''current'', JNum 0)])])]))
      (w0\<lparr>states := JObj [(''playback'', JStr ''stop'')]\<rparr>))) =
     JObj [(''timer'', JObj [(''current'', JNum 0)]), (''isNegative'', JBool False)]"
  using ontime_replaces_states [of
      "JObj [(''type'', JStr ''ontime''),
             (''payload'', JObj [(''timer'', JObj [(''current'', JNum (- 500))])])]"
      "[(''timer'', JObj [(''current'', JNum (- 500))])]"
      "JObj [(''current'', JNum (- 500))]" "- 500" env0
      "w0\<lparr>states := JObj [(''playback'', JStr ''stop'')]\<rparr>"]
    ontime_replaces_states [of
      "JObj [(''type'', JStr ''ontime''),
             (''payload'', JObj [(''timer'', JObj [(''current'', JNum 0)])])]"
      "[(''timer'', JObj [(''current'', JNum 0)])]"
      "JObj [(''current'', JNum 0)]" "0" env0
      "w0\<lparr>states := JObj [(''playback'', JStr ''stop'')]\<rparr>"]
  by simp

text \<open>
  Claim C4. A frame whose data is no JSON, so that \<^verbatim>\<open>JSON.parse\<close> throws: nothing
  leaves the handler, and the state is what it was, the stored states, the event
  directory and the calls made on the host (no variable is set) included.
\<close>

theorem onmessage_invalid_json:
  "onmessage en (Inl e) w = (None, w)"
  by (simp add: onmessage_def onmessage_try_def)

text \<open>
  Claim C6. A parsed message whose \<^verbatim>\<open>type\<close> is neither \<^verbatim>\<open>ontime\<close> nor
  \<^verbatim>\<open>ontime-refetch\<close> (absent and falsy types among them): nothing leaves the handler
  and the state is what it was, so no variable is set, no feedback is checked, and the
  stored states and the event directory are unchanged.
\<close>

theorem onmessage_other_type:
  assumes "get_prop d ''type'' \<noteq> Inr (JStr ''ontime'')"
    and "get_prop d ''type'' \<noteq> Inr (JStr ''ontime-refetch'')"
  shows "onmessage en (Inr d) w = (None, w)"
  using assms
  by (auto simp: onmessage_def onmessage_try_def bind_r_def
      split: sum.splits prod.splits option.splits)

theorem onmessage_other_type_witness:
  "onmessage env0 (Inr (JObj [(''type'', JStr ''ontime-reload''), (''payload'', JNum 1)])) w0 = (None, w0) \<and>
   onmessage env0 (Inr (JObj [(''payload'', JNum 1)])) w0 = (None, w0) \<and>
   onmessage env0 (Inr (JObj [(''type'', JNum 0), (''payload'', JNum 1)])) w0 = (None, w0)"
  using onmessage_other_type [of "JObj [(''type'', JStr ''ontime-reload''), (''payload'', JNum 1)]" env0 w0]
    onmessage_other_type [of "JObj [(''payload'', JNum 1)]" env0 w0]
    onmessage_other_type [of "JObj [(''type'', JNum 0), (''payload'', JNum 1)]" env0 w0]
  by simp




section \<open>initEvents\<close>

text \<open>
  Claim C5, as stated: after a run of \<open>initEvents\<close> whose request fails, the event
  directory is empty. The run does not write the directory, so what an earlier run
  has stored stays: of two requests pending after two messages \<^verbatim>\<open>ontime-refetch\<close>,
  the first is answered with one event and the second fails, and the directory holds
  that event.
\<close>

theorem initEvents_failure_keeps_events:
  "events (run env0 w0 two_refetches) \<noteq> JArr []"
  by (simp add: two_refetches_def run_defs message_defs)

text \<open>
  Claim C5, amended. The request of a run of \<open>initEvents\<close> fails: it is rejected, or
  its body is no JSON and arrives as a string. Then the rest of the run ends normally
  (the promise is not rejected) and changes nothing but the log, where it adds
  \<^verbatim>\<open>failed to fetch events from ontime\<close> and what was thrown, at level \<^verbatim>\<open>error\<close>. The
  run never writes the event directory: the directory is the same after the call as
  before it; it is the same after the request has settled as before it settled,
  whatever has run since the call; and it is the same after the run as before the run
  when the request settles with nothing run in between.
\<close>

theorem initEvents_failure:
  assumes "http_failed r"
  shows "initEvents_settle en r w = (None, w\<lparr>effects := effects w @ failure_log en r\<rparr>) \<and>
         events (initEvents_start en c w) = events w \<and>
         events (step en w' (HttpSettled rid r)) = events w' \<and>
         events (snd (initEvents_settle en r (initEvents_start en c w))) = events w"
  using assms
  by (simp add: initEvents_settle_failed initEvents_start_events http_settled_failed_events)

theorem initEvents_failure_witness:
  "http_failed Rejected \<and> http_failed (Resolved (JStr ''<html>'')) \<and>
   initEvents_settle env0 Rejected (w0\<lparr>events := old_events\<rparr>) =
     (None, w0\<lparr>events := old_events,
               effects := [Log Error ''failed to fetch events from ontime'',
                           LogThrown Error AxiosError]\<rparr>) \<and>
   initEvents_settle env0 (Resolved (JStr ''<html>'')) (w0\<lparr>events := old_events\<rparr>) =
     (None, w0\<lparr>events := old_events,
               effects := [Log Debug (''fetched '' @ ToString env0 (JNum 6) @ '' events''),
                           Log Error ''failed to fetch events from ontime'',
                           LogThrown Error TypeError]\<rparr>)"
  using initEvents_failure [where r = Rejected and en = env0
      and w = "w0\<lparr>events := old_events\<rparr>"]
    initEvents_failure [where r = "Resolved (JStr ''<html>'')" and en = env0
      and w = "w0\<lparr>events := old_events\<rparr>"]
  by (simp add: http_failed_def failure_log_def field_def to_text_def w0_def initial_def)

text \<open>
  Claim C8, as stated: whenever the request is answered with an array, the event
  directory becomes the array of the mapped elements. On an element that is \<^verbatim>\<open>null\<close>
  the function of lines 168 to 171 throws while \<^verbatim>\<open>map\<close> runs, the assignment to
  \<^verbatim>\<open>self.events\<close> is not reached, and the directory stays what it was: answered with an event and
  \<^verbatim>\<open>null\<close>, \<open>initEvents\<close> leaves the old directory, which is not the array of two
  records.
\<close>

theorem initEvents_null_element_keeps_events:
  "events (snd (initEvents_settle env0
      (Resolved (JArr [JObj [(''id'', JStr ''1''), (''title'', JStr ''Open'')], JNull]))
      (w0\<lparr>events := old_events\<rparr>))) = old_events \<and>
   old_events \<noteq>
     JArr (map event_record [JObj [(''id'', JStr ''1''), (''title'', JStr ''Open'')], JNull])"
  by (simp add: initEvents_settle_def initEvents_try_def array_map_def event_of_def bind_r_def
      emit_def Let_def old_events_def)

text \<open>
  Claim C8, amended. When the request is answered with an array none of whose
  elements is \<^verbatim>\<open>null\<close>, \<open>initEvents\<close> ends normally and the event directory is the
  array of the records \<^verbatim>\<open>{id: element.id, label: element.title}\<close>, one for each
  element in order, whatever the directory held before.
\<close>

theorem initEvents_success:
  assumes "\<forall>x\<in>set xs. x \<noteq> JNull \<and> x \<noteq> JUndefined"
  shows "fst (initEvents_settle en (Resolved (JArr xs)) w) = None \<and>
         events (snd (initEvents_settle en (Resolved (JArr xs)) w)) = JArr (map event_record xs)"
proof -
  from assms have "\<forall>x\<in>set xs. \<not> nullish x" by (auto simp: nullish_def)
  then have "map_r event_of xs = Inr (map event_record xs)" by (rule map_r_event_of)
  then show ?thesis
    by (simp add: initEvents_settle_def initEvents_try_def array_map_def bind_r_def Let_def emit_def)
qed

theorem initEvents_success_witness:
  "events (snd (initEvents_settle env0
      (Resolved (JArr [JObj [(''id'', JStr ''1''), (''title'', JStr ''Open'')]]))
      (w0\<lparr>events := JArr [JObj [(''id'', JStr ''7''), (''label'', JStr ''Old'')]]\<rparr>))) =
     JArr [JObj [(''id'', JStr ''1''), (''label'', JStr ''Open'')]]"
  using initEvents_success [of "[JObj [(''id'', JStr ''1''), (''title'', JStr ''Open'')]]" env0
      "w0\<lparr>events := JArr [JObj [(''id'', JStr ''7''), (''label'', JStr ''Old'')]]\<rparr>"]
  by (simp add: event_record_def field_def)

end
